theory Spec2Isabelle
  imports Main "HOL-Library.Word"
begin

section \<open>Data model of the KluctlDeployment API type\<close>

text \<open>
  Go's \<open>time.Duration\<close> and the \<open>int64\<close> fields are 64-bit two's complement integers:
  \<open>-\<close> wraps around and \<open><\<close> compares the signed values. Durations count
  nanoseconds. Go strings are byte sequences and \<open>len\<close> counts bytes, as \<open>length\<close>
  does on \<open>string\<close>.
\<close>

type_synonym Duration = "64 word"

definition Second :: Duration where
  "Second = 1000000000"

definition MaxConditionMessageLength :: nat where
  "MaxConditionMessageLength = 20000"

definition HealthyCondition :: string where
  "HealthyCondition = ''Healthy''"

text \<open>
  Modelled from the spec: the constants \<open>meta.ReadyCondition\<close> and
  \<open>meta.ProgressingReason\<close> and the values of \<open>metav1.ConditionStatus\<close> (a string
  type) are declared in imported packages, not in the sources at hand. The specification
  names the Ready condition only; the strings below are the ones those packages declare.
  No property proved here depends on them, only the sample evaluations show them.
\<close>

definition ReadyCondition :: string where
  "ReadyCondition = ''Ready''"

definition ProgressingReason :: string where
  "ProgressingReason = ''Progressing''"

type_synonym ConditionStatus = string

definition ConditionFalse :: ConditionStatus where
  "ConditionFalse = ''False''"

definition ConditionUnknown :: ConditionStatus where
  "ConditionUnknown = ''Unknown''"

text \<open>
  \<open>metav1.Time\<close>: an instant, with \<open>0\<close> standing for the zero value that \<open>IsZero\<close>
  recognises.
\<close>

type_synonym Time = nat

text \<open>\<open>metav1.Condition\<close>.\<close>

record Condition =
  cond_Type :: string
  cond_Status :: ConditionStatus
  cond_ObservedGeneration :: "64 word"
  cond_LastTransitionTime :: Time
  cond_Reason :: string
  cond_Message :: string

text \<open>\<open>meta.NamespacedObjectReference\<close> and \<open>CrossNamespaceSourceReference\<close>.\<close>

record NamespacedObjectReference =
  dep_Name :: string
  dep_Namespace :: string

record CrossNamespaceSourceReference =
  ref_APIVersion :: string
  ref_Kind :: string
  ref_Name :: string
  ref_Namespace :: string

text \<open>The optional fields \<open>RetryInterval\<close> and \<open>Timeout\<close> are pointers: \<open>None\<close> is nil.\<close>

record KluctlDeploymentSpec =
  DependsOn :: "NamespacedObjectReference list"
  Interval :: Duration
  RetryInterval :: "Duration option"
  Path :: string
  SourceRef :: CrossNamespaceSourceReference
  Suspend :: bool
  Target :: string
  Timeout :: "Duration option"
  ForceApply :: bool
  Prune :: bool

record KluctlDeploymentStatus =
  LastHandledReconcileAt :: string
  ObservedGeneration :: "64 word"
  Conditions :: "Condition list"
  LastDeployedRevision :: string
  LastAttemptedRevision :: string

text \<open>
  The fields of \<open>metav1.ObjectMeta\<close> that the code reads. \<open>metav1.TypeMeta\<close>, which no
  function here reads or writes, is left out of \<open>KluctlDeployment\<close>.
\<close>

record ObjectMeta =
  Name :: string
  Namespace :: string
  Generation :: "64 word"

record KluctlDeployment =
  Meta :: ObjectMeta
  Spec :: KluctlDeploymentSpec
  Status :: KluctlDeploymentStatus

section \<open>Timeout and retry interval\<close>

definition GetTimeout :: "KluctlDeployment \<Rightarrow> Duration" where
  "GetTimeout k =
     (let duration = Interval (Spec k) - 30 * Second;
          duration = (case Timeout (Spec k) of None \<Rightarrow> duration | Some t \<Rightarrow> t)
      in if duration <s 30 * Second then 30 * Second else duration)"

definition GetRequeueAfter :: "KluctlDeployment \<Rightarrow> Duration" where
  "GetRequeueAfter k = Interval (Spec k)"

definition GetRetryInterval :: "KluctlDeployment \<Rightarrow> Duration" where
  "GetRetryInterval k =
     (case RetryInterval (Spec k) of Some d \<Rightarrow> d | None \<Rightarrow> GetRequeueAfter k)"

section \<open>Condition helpers\<close>

definition trimString :: "string \<Rightarrow> nat \<Rightarrow> string" where
  "trimString str limit =
     (if length str \<le> limit then str else take limit str @ ''...'')"

text \<open>
  Modelled from the spec: the helpers store conditions through
  \<open>apimeta.SetStatusCondition\<close> of \<open>k8s.io/apimachinery\<close>, an imported package that
  is not part of the sources at hand. Its lookup \<open>FindStatusCondition\<close> scans the slice
  from the front and yields the first condition of the given type (a pointer to the
  element, or nil; here its position, or \<open>None\<close>).
\<close>

fun FindStatusCondition :: "Condition list \<Rightarrow> string \<Rightarrow> nat option" where
  "FindStatusCondition [] conditionType = None"
| "FindStatusCondition (c # cs) conditionType =
     (if cond_Type c = conditionType then Some 0
      else map_option Suc (FindStatusCondition cs conditionType))"

text \<open>
  Modelled from the spec: what \<open>apimeta.SetStatusCondition\<close> does to an existing
  condition of the new condition's type. The specification says that the existing
  condition is replaced. The library overwrites it field by field: status, reason,
  message and observed generation are taken from the new condition; the transition time
  changes only when the status does (to that of the new condition, or to the current
  time \<open>now\<close> when the new condition has none). The type is the same by the lookup.
\<close>

definition updateExisting :: "Time \<Rightarrow> Condition \<Rightarrow> Condition \<Rightarrow> Condition" where
  "updateExisting now existingCondition newCondition =
     (let existingCondition =
            (if cond_Status existingCondition \<noteq> cond_Status newCondition
             then existingCondition
                    \<lparr>cond_Status := cond_Status newCondition,
                     cond_LastTransitionTime :=
                       (if cond_LastTransitionTime newCondition \<noteq> 0
                        then cond_LastTransitionTime newCondition else now)\<rparr>
             else existingCondition)
      in existingCondition
           \<lparr>cond_Reason := cond_Reason newCondition,
            cond_Message := cond_Message newCondition,
            cond_ObservedGeneration := cond_ObservedGeneration newCondition\<rparr>)"

text \<open>
  Modelled from the spec: \<open>apimeta.SetStatusCondition\<close> itself, upsert by type as the
  specification describes it: the first condition of the same type is replaced as above,
  or, when there is none, the new condition is appended (with the current time as its
  transition time when it has none). The current time is a parameter. The caller passes
  a pointer to the slice; the model returns the new slice.
\<close>

definition SetStatusCondition :: "Time \<Rightarrow> Condition list \<Rightarrow> Condition \<Rightarrow> Condition list" where
  "SetStatusCondition now conditions newCondition =
     (case FindStatusCondition conditions (cond_Type newCondition) of
        None \<Rightarrow>
          conditions @
            [if cond_LastTransitionTime newCondition = 0
             then newCondition\<lparr>cond_LastTransitionTime := now\<rparr>
             else newCondition]
      | Some i \<Rightarrow> conditions[i := updateExisting now (conditions ! i) newCondition])"

text \<open>
  A condition literal that names type, status, reason and message only: the other fields
  have Go's zero values.
\<close>

definition mkCondition :: "string \<Rightarrow> ConditionStatus \<Rightarrow> string \<Rightarrow> string \<Rightarrow> Condition" where
  "mkCondition t s r m =
     \<lparr>cond_Type = t, cond_Status = s, cond_ObservedGeneration = 0,
      cond_LastTransitionTime = 0, cond_Reason = r, cond_Message = m\<rparr>"

text \<open>
  The helpers that take a pointer return the updated object here; the helpers that take
  the object by value return their copy, as in the source. Each takes the current time
  that \<open>SetStatusCondition\<close> reads. The copy of a by-value helper shares the backing
  array of the conditions slice with the caller's object, so an update in place of an
  existing condition shows there too; the model and its properties describe the object
  the helper returns.
\<close>

definition setConditions :: "KluctlDeployment \<Rightarrow> Condition list \<Rightarrow> KluctlDeployment" where
  "setConditions k cs = k\<lparr>Status := (Status k)\<lparr>Conditions := cs\<rparr>\<rparr>"

definition KluctlDeploymentProgressing :: "Time \<Rightarrow> KluctlDeployment \<Rightarrow> string \<Rightarrow> KluctlDeployment" where
  "KluctlDeploymentProgressing now k message =
     (let newCondition = mkCondition ReadyCondition ConditionUnknown ProgressingReason
                           (trimString message MaxConditionMessageLength)
      in setConditions k (SetStatusCondition now (Conditions (Status k)) newCondition))"

definition SetKluctlDeploymentHealthiness ::
  "Time \<Rightarrow> KluctlDeployment \<Rightarrow> ConditionStatus \<Rightarrow> string \<Rightarrow> string \<Rightarrow> KluctlDeployment" where
  "SetKluctlDeploymentHealthiness now k status reason message =
     (let newCondition = mkCondition HealthyCondition status reason
                           (trimString message MaxConditionMessageLength)
      in setConditions k (SetStatusCondition now (Conditions (Status k)) newCondition))"

definition SetKluctlDeploymentReadiness ::
  "Time \<Rightarrow> KluctlDeployment \<Rightarrow> ConditionStatus \<Rightarrow> string \<Rightarrow> string \<Rightarrow> string \<Rightarrow> KluctlDeployment" where
  "SetKluctlDeploymentReadiness now k status reason message revision =
     (let newCondition = mkCondition ReadyCondition status reason
                           (trimString message MaxConditionMessageLength);
          k = setConditions k (SetStatusCondition now (Conditions (Status k)) newCondition);
          k = k\<lparr>Status := (Status k)\<lparr>ObservedGeneration := Generation (Meta k)\<rparr>\<rparr>
      in k\<lparr>Status := (Status k)\<lparr>LastAttemptedRevision := revision\<rparr>\<rparr>)"

definition KluctlDeploymentNotReady ::
  "Time \<Rightarrow> KluctlDeployment \<Rightarrow> string \<Rightarrow> string \<Rightarrow> string \<Rightarrow> KluctlDeployment" where
  "KluctlDeploymentNotReady now k revision reason message =
     (let k = SetKluctlDeploymentReadiness now k ConditionFalse reason
                (trimString message MaxConditionMessageLength) revision
      in if revision \<noteq> '''' then k\<lparr>Status := (Status k)\<lparr>LastAttemptedRevision := revision\<rparr>\<rparr>
         else k)"

text \<open>The condition stored for a type: the first condition of that type in the list.\<close>

definition storedCondition :: "KluctlDeployment \<Rightarrow> string \<Rightarrow> Condition option" where
  "storedCondition k t =
     map_option (\<lambda>i. Conditions (Status k) ! i) (FindStatusCondition (Conditions (Status k)) t)"

definition storedMessage :: "KluctlDeployment \<Rightarrow> string \<Rightarrow> string option" where
  "storedMessage k t = map_option cond_Message (storedCondition k t)"

section \<open>Indexers\<close>

text \<open>\<open>sourcev1.Artifact\<close>: the field the code reads.\<close>

record Artifact =
  Revision :: string

text \<open>
  A \<open>client.Object\<close> is a (non-nil) \<open>*KluctlDeployment\<close>, an object with a
  \<open>GetArtifact()\<close> method (whose artifact may be nil), or any other object.
\<close>

datatype Object =
    KluctlDeploymentObject KluctlDeployment
  | SourceObject ObjectMeta "Artifact option"
  | OtherObject ObjectMeta

fun objectMeta :: "Object \<Rightarrow> ObjectMeta" where
  "objectMeta (KluctlDeploymentObject k) = Meta k"
| "objectMeta (SourceObject m a) = m"
| "objectMeta (OtherObject m) = m"

text \<open>\<open>client.ObjectKeyFromObject(obj).String()\<close>: namespace, a slash, name.\<close>

definition objectKeyString :: "Object \<Rightarrow> string" where
  "objectKeyString obj = Namespace (objectMeta obj) @ ''/'' @ Name (objectMeta obj)"

text \<open>\<open>reconcile.Request\<close> with its \<open>types.NamespacedName\<close>.\<close>

record Request =
  req_Namespace :: string
  req_Name :: string

text \<open>
  The reconciler embeds the client. \<open>List\<close> with \<open>client.MatchingFields\<close> reads the
  cache: for an index key and a value it yields an error or the deployments indexed
  under them. The mapper returns the reconciler next to its result, so that what it
  does to that state is part of the model.
\<close>

datatype ListError = ListFailed

record KluctlDeploymentReconciler =
  List :: "string \<Rightarrow> string \<Rightarrow> ListError + KluctlDeployment list"

datatype Panic = NoGetArtifact

definition requestOf :: "KluctlDeployment \<Rightarrow> Request" where
  "requestOf d = \<lparr>req_Namespace = Namespace (Meta d), req_Name = Name (Meta d)\<rparr>"

text \<open>The loop over \<open>list.Items\<close>, with the artifact's revision.\<close>

fun collectRequests :: "string \<Rightarrow> KluctlDeployment list \<Rightarrow> Request list \<Rightarrow> Request list" where
  "collectRequests revision [] reqs = reqs"
| "collectRequests revision (d # ds) reqs =
     (if revision = LastAttemptedRevision (Status d) then collectRequests revision ds reqs
      else collectRequests revision ds (reqs @ [requestOf d]))"

definition requestsForRevisionChangeOf ::
  "KluctlDeploymentReconciler \<Rightarrow> string \<Rightarrow> Object \<Rightarrow> (Panic + Request list) \<times> KluctlDeploymentReconciler" where
  "requestsForRevisionChangeOf r indexKey obj =
     (case obj of
        SourceObject m artifact \<Rightarrow>
          (case artifact of
             None \<Rightarrow> (Inr [], r)
           | Some a \<Rightarrow>
               (case List r indexKey (objectKeyString obj) of
                  Inl err \<Rightarrow> (Inr [], r)
                | Inr items \<Rightarrow> (Inr (collectRequests (Revision a) items []), r)))
      | _ \<Rightarrow> (Inl NoGetArtifact, r))"

definition indexBy :: "string \<Rightarrow> Object \<Rightarrow> string list" where
  "indexBy kind obj =
     (case obj of
        KluctlDeploymentObject k \<Rightarrow>
          (if ref_Kind (SourceRef (Spec k)) = kind
           then (let namespace = Namespace (Meta k);
                     namespace = (if ref_Namespace (SourceRef (Spec k)) \<noteq> ''''
                                  then ref_Namespace (SourceRef (Spec k)) else namespace)
                 in [namespace @ ''/'' @ ref_Name (SourceRef (Spec k))])
           else [])
      | _ \<Rightarrow> [])"

text \<open>Whether the type assertion to an object with \<open>GetArtifact()\<close> succeeds.\<close>

fun hasGetArtifact :: "Object \<Rightarrow> bool" where
  "hasGetArtifact (SourceObject m a) = True"
| "hasGetArtifact obj = False"

section \<open>Sample objects\<close>

definition sampleMeta :: ObjectMeta where
  "sampleMeta = \<lparr>Name = ''app'', Namespace = ''default'', Generation = 3\<rparr>"

definition sampleSourceRef :: "string \<Rightarrow> CrossNamespaceSourceReference" where
  "sampleSourceRef ns =
     \<lparr>ref_APIVersion = ''source.toolkit.fluxcd.io/v1beta2'', ref_Kind = ''GitRepository'',
      ref_Name = ''repo'', ref_Namespace = ns\<rparr>"

text \<open>
  A deployment reconciled every ten minutes, with the given retry interval, timeout,
  source namespace, conditions and last attempted revision.
\<close>

definition sampleDeployment ::
  "Duration option \<Rightarrow> Duration option \<Rightarrow> string \<Rightarrow> Condition list \<Rightarrow> string \<Rightarrow> KluctlDeployment" where
  "sampleDeployment retry timeout ns conds revision =
     \<lparr>Meta = sampleMeta,
      Spec = \<lparr>DependsOn = [], Interval = 600 * Second, RetryInterval = retry, Path = '''',
              SourceRef = sampleSourceRef ns, Suspend = False, Target = ''prod'',
              Timeout = timeout, ForceApply = False, Prune = False\<rparr>,
      Status = \<lparr>LastHandledReconcileAt = '''', ObservedGeneration = 2, Conditions = conds,
                LastDeployedRevision = '''', LastAttemptedRevision = revision\<rparr>\<rparr>"

definition sampleHealthy :: Condition where
  "sampleHealthy =
     \<lparr>cond_Type = ''Healthy'', cond_Status = ''True'', cond_ObservedGeneration = 0,
      cond_LastTransitionTime = 7, cond_Reason = ''ReconciliationSucceeded'',
      cond_Message = ''ok''\<rparr>"

definition sampleReady :: Condition where
  "sampleReady =
     \<lparr>cond_Type = ''Ready'', cond_Status = ''True'', cond_ObservedGeneration = 0,
      cond_LastTransitionTime = 8, cond_Reason = ''ReconciliationSucceeded'',
      cond_Message = ''applied''\<rparr>"

definition sampleSource :: "Artifact option \<Rightarrow> Object" where
  "sampleSource a =
     SourceObject \<lparr>Name = ''repo'', Namespace = ''flux-system'', Generation = 1\<rparr> a"

text \<open>A reconciler whose cache lists the given outcome for every index key and value.\<close>

definition sampleReconciler :: "ListError + KluctlDeployment list \<Rightarrow> KluctlDeploymentReconciler" where
  "sampleReconciler res = \<lparr>List = (\<lambda>indexKey key. res)\<rparr>"

text \<open>A deployment of the given name in namespace \<open>default\<close>, last attempted at a revision.\<close>

definition sampleNamed :: "string \<Rightarrow> string \<Rightarrow> KluctlDeployment" where
  "sampleNamed n revision =
     (sampleDeployment None None '''' [] revision)\<lparr>Meta := sampleMeta\<lparr>Name := n\<rparr>\<rparr>"

section \<open>Timeout and retry interval: properties\<close>

lemma sint_thirty_seconds: "sint (30 * Second) = 30000000000"
  by (simp add: Second_def)

text \<open>Unless the interval is within 30 seconds of the least \<open>int64\<close>, the subtraction is exact.\<close>

lemma sint_minus_thirty_seconds:
  fixes i :: Duration
  assumes "- 9223372006854775808 \<le> sint i"
  shows "sint (i - 30 * Second) = sint i - 30000000000"
proof -
  have le: "sint i \<le> 9223372036854775807"
    using sint_lt [of i] by simp
  have "sint (i - 30 * Second) = signed_take_bit 63 (sint i - sint (30 * Second :: Duration))"
    by (simp only: sint_word_ariths) simp
  also have "\<dots> = signed_take_bit 63 (sint i - 30000000000)"
    by (simp only: sint_thirty_seconds)
  also have "\<dots> = sint i - 30000000000"
    using assms le by (intro signed_take_bit_int_eq_self) simp_all
  finally show ?thesis .
qed

text \<open>
  C1 (as stated): \<open>GetTimeout\<close> would return the maximum of the interval minus 30 seconds,
  the timeout override and 30 seconds. It does not: with an interval of ten minutes and
  an override of one minute the result is one minute, while that maximum is nine and a
  half minutes.
\<close>

theorem GetTimeout_not_max_counterexample:
  "sint (GetTimeout (sampleDeployment None (Some (60 * Second)) '''' [] '''')) = 60000000000 \<and>
   max (sint (Interval (Spec (sampleDeployment None (Some (60 * Second)) '''' [] ''''))) - 30000000000)
       (max (sint (60 * Second)) 30000000000) = 570000000000 \<and>
   sint (GetTimeout (sampleDeployment None (Some (60 * Second)) '''' [] '''')) \<noteq>
     max (sint (Interval (Spec (sampleDeployment None (Some (60 * Second)) '''' [] ''''))) - 30000000000)
         (max (sint (60 * Second)) 30000000000)"
  by (simp add: GetTimeout_def sampleDeployment_def Second_def word_sless_alt)

text \<open>
  C1 (amended): a timeout override, when present, replaces the interval minus 30 seconds
  rather than competing with it. \<open>GetTimeout\<close> returns the larger of the override and
  30 seconds when \<open>Spec.Timeout\<close> is set, and the larger of the interval minus
  30 seconds and 30 seconds when it is not. The subtraction is that of \<open>int64\<close>; it is
  the exact difference unless the interval is within 30 seconds of the least \<open>int64\<close>.
\<close>

theorem GetTimeout_override_or_default:
  "sint (GetTimeout k) =
     (case Timeout (Spec k) of
        Some t \<Rightarrow> max (sint t) 30000000000
      | None \<Rightarrow> max (sint (Interval (Spec k) - 30 * Second)) 30000000000) \<and>
   (Timeout (Spec k) = None \<and> - 9223372006854775808 \<le> sint (Interval (Spec k)) \<longrightarrow>
      sint (GetTimeout k) = max (sint (Interval (Spec k)) - 30000000000) 30000000000)"
proof (intro conjI impI)
  show eq: "sint (GetTimeout k) =
     (case Timeout (Spec k) of
        Some t \<Rightarrow> max (sint t) 30000000000
      | None \<Rightarrow> max (sint (Interval (Spec k) - 30 * Second)) 30000000000)"
    by (simp add: GetTimeout_def Let_def word_sless_alt sint_thirty_seconds split: option.split)
  assume "Timeout (Spec k) = None \<and> - 9223372006854775808 \<le> sint (Interval (Spec k))"
  then show "sint (GetTimeout k) = max (sint (Interval (Spec k)) - 30000000000) 30000000000"
    by (simp add: eq sint_minus_thirty_seconds)
qed

theorem GetTimeout_override_or_default_witness:
  "sint (GetTimeout (sampleDeployment None (Some (60 * Second)) '''' [] '''')) = 60000000000 \<and>
   sint (GetTimeout (sampleDeployment None (Some (5 * Second)) '''' [] '''')) = 30000000000 \<and>
   Timeout (Spec (sampleDeployment None None '''' [] '''')) = None \<and>
   - 9223372006854775808 \<le> sint (Interval (Spec (sampleDeployment None None '''' [] ''''))) \<and>
   sint (GetTimeout (sampleDeployment None None '''' [] '''')) = 570000000000"
proof -
  note spec = GetTimeout_override_or_default
  have 1: "sint (GetTimeout (sampleDeployment None (Some (60 * Second)) '''' [] '''')) = 60000000000"
    using spec [of "sampleDeployment None (Some (60 * Second)) '''' [] ''''", THEN conjunct1]
    by (simp add: sampleDeployment_def Second_def)
  have 2: "sint (GetTimeout (sampleDeployment None (Some (5 * Second)) '''' [] '''')) = 30000000000"
    using spec [of "sampleDeployment None (Some (5 * Second)) '''' [] ''''", THEN conjunct1]
    by (simp add: sampleDeployment_def Second_def)
  have unset: "Timeout (Spec (sampleDeployment None None '''' [] '''')) = None \<and>
      - 9223372006854775808 \<le> sint (Interval (Spec (sampleDeployment None None '''' [] '''')))"
    by (simp add: sampleDeployment_def Second_def)
  from spec [THEN conjunct2, THEN mp, OF unset]
  have 3: "sint (GetTimeout (sampleDeployment None None '''' [] '''')) = 570000000000"
    by (simp add: sampleDeployment_def Second_def)
  from 1 2 unset 3 show ?thesis by simp
qed

text \<open>
  C6: whatever the interval and the override, \<open>GetTimeout\<close> returns at least 30 seconds.
  This covers an interval below 30 seconds, a negative interval, an interval so small
  that the subtraction wraps around, and an override below 30 seconds.
\<close>

theorem GetTimeout_floor:
  "30000000000 \<le> sint (GetTimeout k)"
  by (simp add: GetTimeout_def Let_def word_sless_alt sint_thirty_seconds split: option.split)

text \<open>
  C3: \<open>GetRetryInterval\<close> returns \<open>Spec.RetryInterval\<close> when it is set, and otherwise
  the interval, which is what \<open>GetRequeueAfter\<close> returns.
\<close>

theorem GetRetryInterval_override_or_interval:
  "(RetryInterval (Spec k) = Some d \<longrightarrow> GetRetryInterval k = d) \<and>
   (RetryInterval (Spec k) = None \<longrightarrow>
      GetRetryInterval k = GetRequeueAfter k \<and> GetRetryInterval k = Interval (Spec k))"
  by (simp add: GetRetryInterval_def GetRequeueAfter_def)

theorem GetRetryInterval_override_or_interval_witness:
  "GetRetryInterval (sampleDeployment (Some (90 * Second)) None '''' [] '''') = 90 * Second \<and>
   GetRetryInterval (sampleDeployment None None '''' [] '''') = 600 * Second"
proof
  have set: "RetryInterval (Spec (sampleDeployment (Some (90 * Second)) None '''' [] '''')) =
               Some (90 * Second)"
    by (simp add: sampleDeployment_def)
  from GetRetryInterval_override_or_interval [THEN conjunct1, THEN mp, OF set]
  show "GetRetryInterval (sampleDeployment (Some (90 * Second)) None '''' [] '''') = 90 * Second" .
next
  have unset: "RetryInterval (Spec (sampleDeployment None None '''' [] '''')) = None"
    by (simp add: sampleDeployment_def)
  from GetRetryInterval_override_or_interval [THEN conjunct2, THEN mp, OF unset, THEN conjunct2]
  show "GetRetryInterval (sampleDeployment None None '''' [] '''') = 600 * Second"
    by (simp add: sampleDeployment_def)
qed

section \<open>Condition helpers: properties\<close>

subsection \<open>Finding the first condition of a type\<close>

lemma find_None_iff: "FindStatusCondition cs t = None \<longleftrightarrow> t \<notin> cond_Type ` set cs"
  by (induction cs) auto

lemma find_Some_first:
  "FindStatusCondition cs t = Some i \<Longrightarrow>
     i < length cs \<and> cond_Type (cs ! i) = t \<and> (\<forall>j<i. cond_Type (cs ! j) \<noteq> t)"
proof (induction cs arbitrary: i)
  case Nil
  then show ?case by simp
next
  case (Cons c cs)
  show ?case
  proof (cases "cond_Type c = t")
    case True
    with Cons.prems show ?thesis by simp
  next
    case False
    with Cons.prems obtain i' where i': "FindStatusCondition cs t = Some i'" "i = Suc i'"
      by auto
    from Cons.IH [OF i'(1)] False i'(2) show ?thesis
      by (auto simp: less_Suc_eq_0_disj)
  qed
qed

lemma find_update_same_type:
  "i < length cs \<Longrightarrow> cond_Type c = cond_Type (cs ! i) \<Longrightarrow>
     FindStatusCondition (cs[i := c]) t = FindStatusCondition cs t"
proof (induction cs arbitrary: i)
  case Nil
  then show ?case by simp
next
  case (Cons a cs)
  then show ?case by (cases i) auto
qed

lemma find_append_new:
  "FindStatusCondition cs (cond_Type c) = None \<Longrightarrow>
     FindStatusCondition (cs @ [c]) (cond_Type c) = Some (length cs)"
  by (induction cs) (auto split: if_splits)

lemma filter_update_same_type:
  "i < length cs \<Longrightarrow> cond_Type (cs ! i) = t \<Longrightarrow> cond_Type c = t \<Longrightarrow>
     filter (\<lambda>x. cond_Type x \<noteq> t) (cs[i := c]) = filter (\<lambda>x. cond_Type x \<noteq> t) cs"
proof (induction cs arbitrary: i)
  case Nil
  then show ?case by simp
next
  case (Cons a cs)
  then show ?case by (cases i) auto
qed

subsection \<open>Upsert\<close>

lemma updateExisting_fields:
  "cond_Type (updateExisting now e c) = cond_Type e"
  "cond_Status (updateExisting now e c) = cond_Status c"
  "cond_Reason (updateExisting now e c) = cond_Reason c"
  "cond_Message (updateExisting now e c) = cond_Message c"
  "cond_ObservedGeneration (updateExisting now e c) = cond_ObservedGeneration c"
  by (simp_all add: updateExisting_def)

lemma set_absent:
  "FindStatusCondition cs (cond_Type c) = None \<Longrightarrow>
   SetStatusCondition now cs c =
     cs @ [if cond_LastTransitionTime c = 0 then c\<lparr>cond_LastTransitionTime := now\<rparr> else c]"
  by (simp add: SetStatusCondition_def)

lemma set_present:
  "FindStatusCondition cs (cond_Type c) = Some i \<Longrightarrow>
   SetStatusCondition now cs c = cs[i := updateExisting now (cs ! i) c]"
  by (simp add: SetStatusCondition_def)

lemma set_keeps_other_types:
  "filter (\<lambda>x. cond_Type x \<noteq> cond_Type c) (SetStatusCondition now cs c) =
   filter (\<lambda>x. cond_Type x \<noteq> cond_Type c) cs"
proof (cases "FindStatusCondition cs (cond_Type c)")
  case None
  then show ?thesis by (simp add: set_absent)
next
  case (Some i)
  from find_Some_first [OF Some] show ?thesis
    by (simp add: set_present [OF Some] filter_update_same_type updateExisting_fields)
qed

lemma set_length:
  "length (SetStatusCondition now cs c) =
     (case FindStatusCondition cs (cond_Type c) of None \<Rightarrow> Suc (length cs) | Some i \<Rightarrow> length cs)"
  by (simp add: SetStatusCondition_def split: option.split)

lemma set_find:
  "FindStatusCondition (SetStatusCondition now cs c) (cond_Type c) =
     Some (case FindStatusCondition cs (cond_Type c) of None \<Rightarrow> length cs | Some i \<Rightarrow> i)"
proof (cases "FindStatusCondition cs (cond_Type c)")
  case None
  have "FindStatusCondition (cs @ [x]) (cond_Type c) = Some (length cs)"
    if "cond_Type x = cond_Type c" for x
    using find_append_new [of cs x] None that by simp
  then show ?thesis using None by (simp add: set_absent)
next
  case (Some i)
  from find_Some_first [OF Some] show ?thesis
    by (simp add: set_present [OF Some] find_update_same_type updateExisting_fields Some)
qed

text \<open>
  After the upsert, the first condition of the new condition's type carries its status,
  reason, message and observed generation.
\<close>

lemma set_first_of_type:
  "\<exists>i x. FindStatusCondition (SetStatusCondition now cs c) (cond_Type c) = Some i \<and>
     SetStatusCondition now cs c ! i = x \<and> cond_Type x = cond_Type c \<and>
     cond_Status x = cond_Status c \<and> cond_Reason x = cond_Reason c \<and>
     cond_Message x = cond_Message c \<and>
     cond_ObservedGeneration x = cond_ObservedGeneration c"
proof (cases "FindStatusCondition cs (cond_Type c)")
  case None
  then show ?thesis using set_find [of now cs c] by (simp add: set_absent)
next
  case (Some j)
  from find_Some_first [OF Some] show ?thesis using set_find [of now cs c]
    by (simp add: set_present [OF Some] updateExisting_fields Some)
qed

lemma stored_after_set:
  assumes "Conditions (Status k') = SetStatusCondition now cs c"
  shows "\<exists>x. storedCondition k' (cond_Type c) = Some x \<and> cond_Type x = cond_Type c \<and>
     cond_Status x = cond_Status c \<and> cond_Reason x = cond_Reason c \<and>
     cond_Message x = cond_Message c"
  using set_first_of_type [of now cs c] assms by (auto simp: storedCondition_def)

text \<open>
  C5: setting a condition is an upsert by type. If the list holds a condition of the new
  condition's type, the list keeps its length, the first condition of that type takes
  the status, reason, message and observed generation of the new condition, and every
  other position is unchanged. If it holds none, the new condition is appended (its
  transition time set to the current time when it has none). In both cases the
  conditions of the other types are the same, in the same order.
\<close>

theorem SetStatusCondition_upsert:
  "(cond_Type c \<in> cond_Type ` set cs \<longrightarrow>
      length (SetStatusCondition now cs c) = length cs \<and>
      (\<exists>i<length cs.
          cond_Type (cs ! i) = cond_Type c \<and> (\<forall>j<i. cond_Type (cs ! j) \<noteq> cond_Type c) \<and>
          cond_Type (SetStatusCondition now cs c ! i) = cond_Type c \<and>
          cond_Status (SetStatusCondition now cs c ! i) = cond_Status c \<and>
          cond_Reason (SetStatusCondition now cs c ! i) = cond_Reason c \<and>
          cond_Message (SetStatusCondition now cs c ! i) = cond_Message c \<and>
          cond_ObservedGeneration (SetStatusCondition now cs c ! i) = cond_ObservedGeneration c \<and>
          (\<forall>j<length cs. j \<noteq> i \<longrightarrow> SetStatusCondition now cs c ! j = cs ! j))) \<and>
   (cond_Type c \<notin> cond_Type ` set cs \<longrightarrow>
      SetStatusCondition now cs c =
        cs @ [c\<lparr>cond_LastTransitionTime :=
                  if cond_LastTransitionTime c = 0 then now else cond_LastTransitionTime c\<rparr>]) \<and>
   filter (\<lambda>x. cond_Type x \<noteq> cond_Type c) (SetStatusCondition now cs c) =
     filter (\<lambda>x. cond_Type x \<noteq> cond_Type c) cs"
proof (intro conjI impI)
  assume "cond_Type c \<in> cond_Type ` set cs"
  then obtain i where i: "FindStatusCondition cs (cond_Type c) = Some i"
    using find_None_iff [of cs "cond_Type c"] by (cases "FindStatusCondition cs (cond_Type c)") auto
  note first = find_Some_first [OF i]
  show "length (SetStatusCondition now cs c) = length cs"
    by (simp add: set_present [OF i])
  show "\<exists>i<length cs.
          cond_Type (cs ! i) = cond_Type c \<and> (\<forall>j<i. cond_Type (cs ! j) \<noteq> cond_Type c) \<and>
          cond_Type (SetStatusCondition now cs c ! i) = cond_Type c \<and>
          cond_Status (SetStatusCondition now cs c ! i) = cond_Status c \<and>
          cond_Reason (SetStatusCondition now cs c ! i) = cond_Reason c \<and>
          cond_Message (SetStatusCondition now cs c ! i) = cond_Message c \<and>
          cond_ObservedGeneration (SetStatusCondition now cs c ! i) = cond_ObservedGeneration c \<and>
          (\<forall>j<length cs. j \<noteq> i \<longrightarrow> SetStatusCondition now cs c ! j = cs ! j)"
    using first by (intro exI [of _ i]) (simp add: set_present [OF i] updateExisting_fields)
next
  assume "cond_Type c \<notin> cond_Type ` set cs"
  then have "FindStatusCondition cs (cond_Type c) = None"
    by (simp add: find_None_iff)
  then show "SetStatusCondition now cs c =
        cs @ [c\<lparr>cond_LastTransitionTime :=
                  if cond_LastTransitionTime c = 0 then now else cond_LastTransitionTime c\<rparr>]"
    by (simp add: set_absent)
next
  show "filter (\<lambda>x. cond_Type x \<noteq> cond_Type c) (SetStatusCondition now cs c) =
     filter (\<lambda>x. cond_Type x \<noteq> cond_Type c) cs"
    by (rule set_keeps_other_types)
qed

theorem SetStatusCondition_upsert_witness:
  "cond_Type (mkCondition ''Ready'' ''False'' ''DeployFailed'' ''boom'')
     \<in> cond_Type ` set [sampleHealthy, sampleReady] \<and>
   length (SetStatusCondition 9 [sampleHealthy, sampleReady]
             (mkCondition ''Ready'' ''False'' ''DeployFailed'' ''boom'')) = 2 \<and>
   cond_Type (mkCondition ''Ready'' ''False'' ''DeployFailed'' ''boom'')
     \<notin> cond_Type ` set [sampleHealthy] \<and>
   SetStatusCondition 9 [sampleHealthy] (mkCondition ''Ready'' ''False'' ''DeployFailed'' ''boom'') =
     [sampleHealthy,
      \<lparr>cond_Type = ''Ready'', cond_Status = ''False'', cond_ObservedGeneration = 0,
       cond_LastTransitionTime = 9, cond_Reason = ''DeployFailed'', cond_Message = ''boom''\<rparr>]"
proof -
  let ?c = "mkCondition ''Ready'' ''False'' ''DeployFailed'' ''boom''"
  have present: "cond_Type ?c \<in> cond_Type ` set [sampleHealthy, sampleReady]"
    by (simp add: mkCondition_def sampleHealthy_def sampleReady_def)
  have absent: "cond_Type ?c \<notin> cond_Type ` set [sampleHealthy]"
    by (simp add: mkCondition_def sampleHealthy_def)
  from SetStatusCondition_upsert [THEN conjunct1, THEN mp, OF present, THEN conjunct1]
  have "length (SetStatusCondition 9 [sampleHealthy, sampleReady] ?c) = 2"
    by simp
  moreover
  from SetStatusCondition_upsert [THEN conjunct2, THEN conjunct1, THEN mp, OF absent, of 9]
  have "SetStatusCondition 9 [sampleHealthy] ?c =
          [sampleHealthy, ?c\<lparr>cond_LastTransitionTime := 9\<rparr>]"
    by (simp add: mkCondition_def)
  ultimately show ?thesis using present absent by (simp add: mkCondition_def)
qed

subsection \<open>The helpers\<close>

lemma trimString_twice: "trimString (trimString m n) n = trimString m n"
  by (simp add: trimString_def)

lemma storedMessage_after_set:
  assumes "Conditions (Status k') = SetStatusCondition now cs c"
  shows "storedMessage k' (cond_Type c) = Some (cond_Message c)"
  using stored_after_set [OF assms] by (auto simp: storedMessage_def)

lemma mkCondition_fields:
  "cond_Type (mkCondition t s r m) = t"
  "cond_Status (mkCondition t s r m) = s"
  "cond_Reason (mkCondition t s r m) = r"
  "cond_Message (mkCondition t s r m) = m"
  by (simp_all add: mkCondition_def)

lemma Progressing_conditions:
  "Conditions (Status (KluctlDeploymentProgressing now k message)) =
     SetStatusCondition now (Conditions (Status k))
       (mkCondition ReadyCondition ConditionUnknown ProgressingReason
          (trimString message MaxConditionMessageLength))"
  by (simp add: KluctlDeploymentProgressing_def setConditions_def)

lemma Healthiness_conditions:
  "Conditions (Status (SetKluctlDeploymentHealthiness now k status reason message)) =
     SetStatusCondition now (Conditions (Status k))
       (mkCondition HealthyCondition status reason
          (trimString message MaxConditionMessageLength))"
  by (simp add: SetKluctlDeploymentHealthiness_def setConditions_def)

lemma Readiness_conditions:
  "Conditions (Status (SetKluctlDeploymentReadiness now k status reason message revision)) =
     SetStatusCondition now (Conditions (Status k))
       (mkCondition ReadyCondition status reason
          (trimString message MaxConditionMessageLength))"
  by (simp add: SetKluctlDeploymentReadiness_def setConditions_def)

lemma NotReady_conditions:
  "Conditions (Status (KluctlDeploymentNotReady now k revision reason message)) =
     SetStatusCondition now (Conditions (Status k))
       (mkCondition ReadyCondition ConditionFalse reason
          (trimString message MaxConditionMessageLength))"
  by (simp add: KluctlDeploymentNotReady_def Let_def Readiness_conditions trimString_twice)

text \<open>
  C4: each helper stores the message unchanged when it has at most 20000 bytes, and
  otherwise its first 20000 bytes followed by three dots. The stored message is that of
  the first condition of the helper's type in the resulting list.
  \<open>KluctlDeploymentNotReady\<close> trims twice, with the same result.
\<close>

theorem condition_message_trimmed:
  "storedMessage (KluctlDeploymentProgressing now k message) ReadyCondition =
     Some (if length message \<le> 20000 then message else take 20000 message @ ''...'') \<and>
   storedMessage (SetKluctlDeploymentHealthiness now k status reason message) HealthyCondition =
     Some (if length message \<le> 20000 then message else take 20000 message @ ''...'') \<and>
   storedMessage (SetKluctlDeploymentReadiness now k status reason message revision) ReadyCondition =
     Some (if length message \<le> 20000 then message else take 20000 message @ ''...'') \<and>
   storedMessage (KluctlDeploymentNotReady now k revision reason message) ReadyCondition =
     Some (if length message \<le> 20000 then message else take 20000 message @ ''...'')"
proof -
  have trimmed: "trimString message MaxConditionMessageLength =
      (if length message \<le> 20000 then message else take 20000 message @ ''...'')"
    by (simp add: trimString_def MaxConditionMessageLength_def)
  show ?thesis
    using storedMessage_after_set [OF Progressing_conditions, of now k message]
          storedMessage_after_set [OF Healthiness_conditions, of now k status reason message]
          storedMessage_after_set [OF Readiness_conditions, of now k status reason message revision]
          storedMessage_after_set [OF NotReady_conditions, of now k revision reason message]
    by (simp only: mkCondition_fields trimmed simp_thms)
qed

theorem condition_message_trimmed_witness:
  "storedMessage (KluctlDeploymentNotReady 9 (sampleDeployment None None '''' [sampleReady] '''')
                    ''main/abc'' ''DeployFailed'' (replicate 20001 CHR ''x'')) ReadyCondition =
     Some (replicate 20000 CHR ''x'' @ ''...'') \<and>
   storedMessage (KluctlDeploymentProgressing 9 (sampleDeployment None None '''' [] '''')
                    ''working'') ReadyCondition = Some ''working''"
  using condition_message_trimmed
          [of 9 "sampleDeployment None None '''' [sampleReady] ''''" "replicate 20001 CHR ''x''"
              "''False''" "''DeployFailed''" "''main/abc''"]
        condition_message_trimmed
          [of 9 "sampleDeployment None None '''' [] ''''" "''working''"
              "''False''" "''DeployFailed''" "''main/abc''"]
  by simp

lemma Readiness_rest:
  "Meta (SetKluctlDeploymentReadiness now k status reason message revision) = Meta k"
  "Spec (SetKluctlDeploymentReadiness now k status reason message revision) = Spec k"
  "ObservedGeneration (Status (SetKluctlDeploymentReadiness now k status reason message revision)) =
     Generation (Meta k)"
  "LastAttemptedRevision (Status (SetKluctlDeploymentReadiness now k status reason message revision)) =
     revision"
  "LastDeployedRevision (Status (SetKluctlDeploymentReadiness now k status reason message revision)) =
     LastDeployedRevision (Status k)"
  by (simp_all add: SetKluctlDeploymentReadiness_def setConditions_def)

text \<open>
  C7: \<open>SetKluctlDeploymentReadiness\<close> upserts the Ready condition (the list becomes the
  upsert of the old list with a Ready condition of the given status and reason and the
  trimmed message, so the first Ready condition carries them and the conditions of other
  types stay), sets \<open>Status.ObservedGeneration\<close> to the object's generation and
  \<open>Status.LastAttemptedRevision\<close> to the given revision, the empty string included.
\<close>

theorem SetKluctlDeploymentReadiness_sets_status:
  "Conditions (Status (SetKluctlDeploymentReadiness now k status reason message revision)) =
     SetStatusCondition now (Conditions (Status k))
       (mkCondition ReadyCondition status reason (trimString message MaxConditionMessageLength)) \<and>
   (\<exists>c. storedCondition (SetKluctlDeploymentReadiness now k status reason message revision)
           ReadyCondition = Some c \<and>
        cond_Type c = ReadyCondition \<and> cond_Status c = status \<and> cond_Reason c = reason \<and>
        cond_Message c = trimString message MaxConditionMessageLength) \<and>
   filter (\<lambda>c. cond_Type c \<noteq> ReadyCondition)
     (Conditions (Status (SetKluctlDeploymentReadiness now k status reason message revision))) =
     filter (\<lambda>c. cond_Type c \<noteq> ReadyCondition) (Conditions (Status k)) \<and>
   ObservedGeneration (Status (SetKluctlDeploymentReadiness now k status reason message revision)) =
     Generation (Meta k) \<and>
   LastAttemptedRevision (Status (SetKluctlDeploymentReadiness now k status reason message revision)) =
     revision \<and>
   LastAttemptedRevision (Status (SetKluctlDeploymentReadiness now k status reason message '''')) =
     ''''"
proof (intro conjI)
  let ?c = "mkCondition ReadyCondition status reason (trimString message MaxConditionMessageLength)"
  let ?k' = "SetKluctlDeploymentReadiness now k status reason message revision"
  show conds: "Conditions (Status ?k') = SetStatusCondition now (Conditions (Status k)) ?c"
    by (rule Readiness_conditions)
  from stored_after_set [OF conds]
  show "\<exists>c. storedCondition ?k' ReadyCondition = Some c \<and>
        cond_Type c = ReadyCondition \<and> cond_Status c = status \<and> cond_Reason c = reason \<and>
        cond_Message c = trimString message MaxConditionMessageLength"
    by (simp only: mkCondition_fields)
  from set_keeps_other_types [of ?c now "Conditions (Status k)"]
  show "filter (\<lambda>c. cond_Type c \<noteq> ReadyCondition) (Conditions (Status ?k')) =
     filter (\<lambda>c. cond_Type c \<noteq> ReadyCondition) (Conditions (Status k))"
    by (simp only: conds mkCondition_fields)
qed (simp_all only: Readiness_rest)

theorem SetKluctlDeploymentReadiness_sets_status_witness:
  "ObservedGeneration (Status (SetKluctlDeploymentReadiness 9
      (sampleDeployment None None '''' [sampleHealthy] ''main/abc'')
      ''False'' ''DeployFailed'' ''boom'' '''')) = 3 \<and>
   LastAttemptedRevision (Status (SetKluctlDeploymentReadiness 9
      (sampleDeployment None None '''' [sampleHealthy] ''main/abc'')
      ''False'' ''DeployFailed'' ''boom'' '''')) = '''' \<and>
   Conditions (Status (SetKluctlDeploymentReadiness 9
      (sampleDeployment None None '''' [sampleHealthy] ''main/abc'')
      ''False'' ''DeployFailed'' ''boom'' '''')) =
     [sampleHealthy,
      \<lparr>cond_Type = ''Ready'', cond_Status = ''False'', cond_ObservedGeneration = 0,
       cond_LastTransitionTime = 9, cond_Reason = ''DeployFailed'', cond_Message = ''boom''\<rparr>]"
  using SetKluctlDeploymentReadiness_sets_status
          [of 9 "sampleDeployment None None '''' [sampleHealthy] ''main/abc''"
              "''False''" "''DeployFailed''" "''boom''" "''''"]
  by (simp add: sampleDeployment_def sampleMeta_def sampleHealthy_def SetStatusCondition_def
        mkCondition_def ReadyCondition_def trimString_def MaxConditionMessageLength_def)

lemma Progressing_rest:
  "Meta (KluctlDeploymentProgressing now k message) = Meta k"
  "Spec (KluctlDeploymentProgressing now k message) = Spec k"
  "ObservedGeneration (Status (KluctlDeploymentProgressing now k message)) =
     ObservedGeneration (Status k)"
  "LastAttemptedRevision (Status (KluctlDeploymentProgressing now k message)) =
     LastAttemptedRevision (Status k)"
  "LastDeployedRevision (Status (KluctlDeploymentProgressing now k message)) =
     LastDeployedRevision (Status k)"
  by (simp_all add: KluctlDeploymentProgressing_def setConditions_def)

text \<open>
  C8: \<open>KluctlDeploymentProgressing\<close> keeps the conditions of every type other than
  Ready: they are the same, in the same order, in the returned deployment. It upserts the
  Ready condition instead of resetting the list: the list never gets shorter, and its
  first Ready condition has status Unknown and reason Progressing. The spec, the observed
  generation and the last attempted revision are unchanged.
\<close>

theorem KluctlDeploymentProgressing_preserves:
  "filter (\<lambda>c. cond_Type c \<noteq> ReadyCondition)
     (Conditions (Status (KluctlDeploymentProgressing now k message))) =
     filter (\<lambda>c. cond_Type c \<noteq> ReadyCondition) (Conditions (Status k)) \<and>
   length (Conditions (Status k)) \<le>
     length (Conditions (Status (KluctlDeploymentProgressing now k message))) \<and>
   (\<exists>c. storedCondition (KluctlDeploymentProgressing now k message) ReadyCondition = Some c \<and>
        cond_Type c = ReadyCondition \<and> cond_Status c = ConditionUnknown \<and>
        cond_Reason c = ProgressingReason) \<and>
   Spec (KluctlDeploymentProgressing now k message) = Spec k \<and>
   ObservedGeneration (Status (KluctlDeploymentProgressing now k message)) =
     ObservedGeneration (Status k) \<and>
   LastAttemptedRevision (Status (KluctlDeploymentProgressing now k message)) =
     LastAttemptedRevision (Status k)"
proof (intro conjI)
  let ?c = "mkCondition ReadyCondition ConditionUnknown ProgressingReason
              (trimString message MaxConditionMessageLength)"
  let ?k' = "KluctlDeploymentProgressing now k message"
  have conds: "Conditions (Status ?k') = SetStatusCondition now (Conditions (Status k)) ?c"
    by (rule Progressing_conditions)
  from set_keeps_other_types [of ?c now "Conditions (Status k)"]
  show "filter (\<lambda>c. cond_Type c \<noteq> ReadyCondition) (Conditions (Status ?k')) =
     filter (\<lambda>c. cond_Type c \<noteq> ReadyCondition) (Conditions (Status k))"
    by (simp only: conds mkCondition_fields)
  show "length (Conditions (Status k)) \<le> length (Conditions (Status ?k'))"
    by (simp add: conds set_length split: option.split)
  from stored_after_set [OF conds]
  show "\<exists>c. storedCondition ?k' ReadyCondition = Some c \<and>
        cond_Type c = ReadyCondition \<and> cond_Status c = ConditionUnknown \<and>
        cond_Reason c = ProgressingReason"
    by (auto simp only: mkCondition_fields)
qed (simp_all only: Progressing_rest)

theorem KluctlDeploymentProgressing_preserves_witness:
  "Conditions (Status (KluctlDeploymentProgressing 9
      (sampleDeployment None None '''' [sampleHealthy, sampleReady] ''main/abc'') ''working'')) =
     [sampleHealthy,
      \<lparr>cond_Type = ''Ready'', cond_Status = ''Unknown'', cond_ObservedGeneration = 0,
       cond_LastTransitionTime = 9, cond_Reason = ''Progressing'', cond_Message = ''working''\<rparr>] \<and>
   filter (\<lambda>c. cond_Type c \<noteq> ReadyCondition)
     (Conditions (Status (KluctlDeploymentProgressing 9
        (sampleDeployment None None '''' [sampleHealthy, sampleReady] ''main/abc'') ''working''))) =
     [sampleHealthy]"
proof
  show "Conditions (Status (KluctlDeploymentProgressing 9
      (sampleDeployment None None '''' [sampleHealthy, sampleReady] ''main/abc'') ''working'')) =
     [sampleHealthy,
      \<lparr>cond_Type = ''Ready'', cond_Status = ''Unknown'', cond_ObservedGeneration = 0,
       cond_LastTransitionTime = 9, cond_Reason = ''Progressing'', cond_Message = ''working''\<rparr>]"
    by (simp add: Progressing_conditions sampleDeployment_def sampleHealthy_def sampleReady_def
          SetStatusCondition_def updateExisting_def mkCondition_def ReadyCondition_def
          ConditionUnknown_def ProgressingReason_def trimString_def MaxConditionMessageLength_def)
  from KluctlDeploymentProgressing_preserves
         [of 9 "sampleDeployment None None '''' [sampleHealthy, sampleReady] ''main/abc''"
             "''working''", THEN conjunct1]
  show "filter (\<lambda>c. cond_Type c \<noteq> ReadyCondition)
     (Conditions (Status (KluctlDeploymentProgressing 9
        (sampleDeployment None None '''' [sampleHealthy, sampleReady] ''main/abc'') ''working''))) =
     [sampleHealthy]"
    by (simp add: sampleDeployment_def sampleHealthy_def sampleReady_def ReadyCondition_def)
qed

section \<open>Indexers: properties\<close>

lemma collectRequests_filter:
  "collectRequests revision ds reqs =
     reqs @ map requestOf (filter (\<lambda>d. LastAttemptedRevision (Status d) \<noteq> revision) ds)"
  by (induction ds arbitrary: reqs) auto

text \<open>
  C2: for a source object with an artifact, when listing the indexed deployments
  succeeds, the mapper returns one request (namespace and name) for each listed
  deployment whose last attempted revision differs from the artifact's revision, in list
  order, and none for the others.
\<close>

theorem requestsForRevisionChangeOf_differing:
  assumes "List r indexKey (objectKeyString (SourceObject m (Some a))) = Inr items"
  shows "fst (requestsForRevisionChangeOf r indexKey (SourceObject m (Some a))) =
           Inr (map requestOf
                  (filter (\<lambda>d. LastAttemptedRevision (Status d) \<noteq> Revision a) items))"
  using assms by (simp add: requestsForRevisionChangeOf_def collectRequests_filter)

theorem requestsForRevisionChangeOf_differing_witness:
  "fst (requestsForRevisionChangeOf
          (sampleReconciler (Inr [sampleNamed ''a'' ''main/abc'', sampleNamed ''b'' ''main/old'']))
          ''.metadata.gitRepository'' (sampleSource (Some \<lparr>Revision = ''main/abc''\<rparr>))) =
     Inr [\<lparr>req_Namespace = ''default'', req_Name = ''b''\<rparr>]"
proof -
  let ?r = "sampleReconciler (Inr [sampleNamed ''a'' ''main/abc'', sampleNamed ''b'' ''main/old''])"
  let ?m = "\<lparr>Name = ''repo'', Namespace = ''flux-system'', Generation = 1\<rparr>"
  have listed: "List ?r ''.metadata.gitRepository''
                  (objectKeyString (SourceObject ?m (Some \<lparr>Revision = ''main/abc''\<rparr>))) =
                Inr [sampleNamed ''a'' ''main/abc'', sampleNamed ''b'' ''main/old'']"
    by (simp add: sampleReconciler_def)
  from requestsForRevisionChangeOf_differing [OF listed] show ?thesis
    by (simp add: sampleSource_def sampleNamed_def sampleDeployment_def sampleMeta_def requestOf_def)
qed

text \<open>
  C10: the mapper returns the empty list when the artifact is nil and when listing the
  indexed deployments fails; it panics exactly for an object without a \<open>GetArtifact()\<close>
  method; and in every case it leaves the reconciler as it was.
\<close>

theorem requestsForRevisionChangeOf_degenerate:
  "requestsForRevisionChangeOf r indexKey (SourceObject m None) = (Inr [], r) \<and>
   (List r indexKey (objectKeyString (SourceObject m (Some a))) = Inl e \<longrightarrow>
      requestsForRevisionChangeOf r indexKey (SourceObject m (Some a)) = (Inr [], r)) \<and>
   snd (requestsForRevisionChangeOf r indexKey obj) = r \<and>
   (fst (requestsForRevisionChangeOf r indexKey obj) = Inl NoGetArtifact) = (\<not> hasGetArtifact obj)"
  by (cases obj) (simp_all add: requestsForRevisionChangeOf_def split: option.split sum.split)

theorem requestsForRevisionChangeOf_degenerate_witness:
  "List (sampleReconciler (Inl ListFailed)) ''.metadata.gitRepository''
     (objectKeyString (sampleSource (Some \<lparr>Revision = ''main/abc''\<rparr>))) = Inl ListFailed \<and>
   requestsForRevisionChangeOf (sampleReconciler (Inl ListFailed)) ''.metadata.gitRepository''
     (sampleSource (Some \<lparr>Revision = ''main/abc''\<rparr>)) =
     (Inr [], sampleReconciler (Inl ListFailed)) \<and>
   requestsForRevisionChangeOf (sampleReconciler (Inr [sampleNamed ''a'' ''main/old'']))
     ''.metadata.gitRepository'' (sampleSource None) =
     (Inr [], sampleReconciler (Inr [sampleNamed ''a'' ''main/old''])) \<and>
   fst (requestsForRevisionChangeOf (sampleReconciler (Inr [sampleNamed ''a'' ''main/old'']))
     ''.metadata.gitRepository'' (KluctlDeploymentObject (sampleNamed ''a'' ''main/old''))) =
     Inl NoGetArtifact"
proof -
  let ?m = "\<lparr>Name = ''repo'', Namespace = ''flux-system'', Generation = 1\<rparr>"
  let ?a = "\<lparr>Revision = ''main/abc''\<rparr>"
  have failed: "List (sampleReconciler (Inl ListFailed)) ''.metadata.gitRepository''
                  (objectKeyString (SourceObject ?m (Some ?a))) = Inl ListFailed"
    by (simp add: sampleReconciler_def)
  note deg = requestsForRevisionChangeOf_degenerate
  from deg [THEN conjunct2, THEN conjunct1, THEN mp, OF failed]
  have 1: "requestsForRevisionChangeOf (sampleReconciler (Inl ListFailed))
             ''.metadata.gitRepository'' (SourceObject ?m (Some ?a)) =
           (Inr [], sampleReconciler (Inl ListFailed))" .
  from deg [THEN conjunct1, of "sampleReconciler (Inr [sampleNamed ''a'' ''main/old''])"
              "''.metadata.gitRepository''" ?m]
  have 2: "requestsForRevisionChangeOf (sampleReconciler (Inr [sampleNamed ''a'' ''main/old'']))
             ''.metadata.gitRepository'' (SourceObject ?m None) =
           (Inr [], sampleReconciler (Inr [sampleNamed ''a'' ''main/old'']))" .
  from deg [THEN conjunct2, THEN conjunct2, THEN conjunct2,
            of "sampleReconciler (Inr [sampleNamed ''a'' ''main/old''])"
               "''.metadata.gitRepository''" "KluctlDeploymentObject (sampleNamed ''a'' ''main/old'')"]
  have 3: "fst (requestsForRevisionChangeOf (sampleReconciler (Inr [sampleNamed ''a'' ''main/old'']))
             ''.metadata.gitRepository'' (KluctlDeploymentObject (sampleNamed ''a'' ''main/old''))) =
           Inl NoGetArtifact"
    by simp
  from failed 1 2 3 show ?thesis by (simp add: sampleSource_def)
qed

text \<open>
  C9: the indexer yields no key for an object that is not a KluctlDeployment and for a
  deployment whose source reference is of another kind; for a deployment whose source
  reference is of the given kind it yields exactly one key, namespace, slash, source
  name, where the namespace is that of the source reference when non-empty and the
  deployment's own otherwise.
\<close>

theorem indexBy_key:
  "indexBy kind (SourceObject m a) = [] \<and>
   indexBy kind (OtherObject m) = [] \<and>
   (ref_Kind (SourceRef (Spec k)) \<noteq> kind \<longrightarrow> indexBy kind (KluctlDeploymentObject k) = []) \<and>
   (ref_Kind (SourceRef (Spec k)) = kind \<longrightarrow>
      indexBy kind (KluctlDeploymentObject k) =
        [(if ref_Namespace (SourceRef (Spec k)) \<noteq> '''' then ref_Namespace (SourceRef (Spec k))
          else Namespace (Meta k)) @ ''/'' @ ref_Name (SourceRef (Spec k))])"
  by (simp add: indexBy_def)

theorem indexBy_key_witness:
  "indexBy ''Bucket'' (KluctlDeploymentObject (sampleDeployment None None '''' [] '''')) = [] \<and>
   indexBy ''GitRepository'' (KluctlDeploymentObject (sampleDeployment None None '''' [] '''')) =
     [''default/repo''] \<and>
   indexBy ''GitRepository''
     (KluctlDeploymentObject (sampleDeployment None None ''flux-system'' [] '''')) =
     [''flux-system/repo'']"
proof -
  let ?k = "sampleDeployment None None '''' [] ''''"
  let ?k' = "sampleDeployment None None ''flux-system'' [] ''''"
  have other: "ref_Kind (SourceRef (Spec ?k)) \<noteq> ''Bucket''"
    by (simp add: sampleDeployment_def sampleSourceRef_def)
  have same: "ref_Kind (SourceRef (Spec ?k)) = ''GitRepository''"
    by (simp add: sampleDeployment_def sampleSourceRef_def)
  have same': "ref_Kind (SourceRef (Spec ?k')) = ''GitRepository''"
    by (simp add: sampleDeployment_def sampleSourceRef_def)
  note key = indexBy_key [THEN conjunct2, THEN conjunct2]
  from key [THEN conjunct1, THEN mp, OF other]
  have 1: "indexBy ''Bucket'' (KluctlDeploymentObject ?k) = []" .
  from key [THEN conjunct2, THEN mp, OF same]
  have 2: "indexBy ''GitRepository'' (KluctlDeploymentObject ?k) = [''default/repo'']"
    by (simp add: sampleDeployment_def sampleSourceRef_def sampleMeta_def)
  from key [THEN conjunct2, THEN mp, OF same']
  have 3: "indexBy ''GitRepository'' (KluctlDeploymentObject ?k') = [''flux-system/repo'']"
    by (simp add: sampleDeployment_def sampleSourceRef_def sampleMeta_def)
  from 1 2 3 show ?thesis by simp
qed


end
